theory Spec2Isabelle
  imports Main "HOL-Library.Log_Nat" "HOL-Library.Sublist" "HOL-Library.AList"
begin

section \<open>Python values used by the backend\<close>

text \<open>
  Strings are Isabelle strings.  Every ASCII text is represented exactly; the functions
  below follow Python's \<^verbatim>\<open>str\<close> methods on ASCII text (characters above 127 are
  treated as ordinary characters that are neither whitespace, digits nor letters).

  An exception is a pair of its class and its message; a function that may raise
  returns \<open>exn + 'a\<close>, with \<open>Inl\<close> for the raised exception.
\<close>

datatype exn_class =
  ValueError | IndexError | OverflowError | OperationalError | HTTPError | OtherException

type_synonym exn = "exn_class \<times> string"

definition exn_bind :: "exn + 'a \<Rightarrow> ('a \<Rightarrow> exn + 'b) \<Rightarrow> exn + 'b" where
  "exn_bind m f = (case m of Inl e \<Rightarrow> Inl e | Inr x \<Rightarrow> f x)"

subsection \<open>String methods\<close>

definition is_space :: "char \<Rightarrow> bool" where
  \<comment> \<open>the ASCII characters for which \<^verbatim>\<open>str.isspace\<close> holds: TAB, LF, VT, FF, CR,
      FS, GS, RS, US and the blank\<close>
  "is_space c = (let n = (of_char c :: nat) in (9 \<le> n \<and> n \<le> 13) \<or> (28 \<le> n \<and> n \<le> 32))"

definition strip :: "string \<Rightarrow> string" where
  "strip s = rev (dropWhile is_space (rev (dropWhile is_space s)))"

definition char_upper :: "char \<Rightarrow> char" where
  "char_upper c = (let n = (of_char c :: nat) in if 97 \<le> n \<and> n \<le> 122 then char_of (n - 32) else c)"

definition char_lower :: "char \<Rightarrow> char" where
  "char_lower c = (let n = (of_char c :: nat) in if 65 \<le> n \<and> n \<le> 90 then char_of (n + 32) else c)"

definition upper :: "string \<Rightarrow> string" where
  "upper s = map char_upper s"

definition lower :: "string \<Rightarrow> string" where
  "lower s = map char_lower s"

definition startswith :: "string \<Rightarrow> string \<Rightarrow> bool" where
  "startswith s p = prefix p s"

fun split_on :: "char \<Rightarrow> string \<Rightarrow> string list" where
  \<comment> \<open>\<^verbatim>\<open>s.split(c)\<close> for a one-character separator: never the empty list\<close>
  "split_on c [] = [[]]"
| "split_on c (x # xs) =
     (if x = c then [] # split_on c xs
      else (case split_on c xs of [] \<Rightarrow> [[x]] | w # ws \<Rightarrow> (x # w) # ws))"

definition split1 :: "char \<Rightarrow> string \<Rightarrow> string list" where
  \<comment> \<open>\<^verbatim>\<open>s.split(c, 1)\<close>: at most one split, at the first occurrence of the separator\<close>
  "split1 c s =
     (if c \<in> set s then [takeWhile (\<lambda>x. x \<noteq> c) s, tl (dropWhile (\<lambda>x. x \<noteq> c) s)] else [s])"

definition replace_char :: "char \<Rightarrow> string \<Rightarrow> string" where
  \<comment> \<open>\<^verbatim>\<open>s.replace(c, "")\<close>: every occurrence is removed\<close>
  "replace_char c s = filter (\<lambda>x. x \<noteq> c) s"

definition py_index :: "'a list \<Rightarrow> nat \<Rightarrow> exn + 'a" where
  "py_index xs i = (if i < length xs then Inr (xs ! i) else Inl (IndexError, ''list index out of range''))"

subsection \<open>Floats\<close>

text \<open>
  A Python float is an IEEE 754 binary64 value.  Finite values are kept as the rational
  number they denote; \<open>to_double\<close> rounds an exact rational to the nearest binary64
  value, ties to even, and overflows to an infinity.
\<close>

datatype pyfloat = Finite rat | PosInf | NegInf | NaN

definition round_half_even :: "rat \<Rightarrow> int" where
  "round_half_even x =
     (let f = \<lfloor>x\<rfloor>; d = x - of_int f
      in if d < 1 / 2 then f else if 1 / 2 < d then f + 1 else if even f then f else f + 1)"

definition binade :: "rat \<Rightarrow> int" where
  \<comment> \<open>for \<open>0 < x\<close>: the exponent \<open>e\<close> with \<open>2 ^ e \<le> x < 2 ^ (e + 1)\<close>\<close>
  "binade x =
     (let (a, b) = quotient_of x; e0 = bitlen a - bitlen b
      in if 2 powi e0 \<le> x then e0 else e0 - 1)"

definition to_double :: "rat \<Rightarrow> pyfloat" where
  "to_double x =
     (if x = 0 then Finite 0
      else let m = \<bar>x\<bar>;
               e = max (binade m) (- 1022);
               ulp = 2 powi (e - 52);
               r = of_int (round_half_even (m / ulp)) * ulp
           in if 2 powi 1024 \<le> r then (if 0 < x then PosInf else NegInf)
              else Finite (if 0 < x then r else - r))"

definition float_neg :: "pyfloat \<Rightarrow> pyfloat" where
  "float_neg x = (case x of Finite q \<Rightarrow> Finite (- q) | PosInf \<Rightarrow> NegInf | NegInf \<Rightarrow> PosInf | NaN \<Rightarrow> NaN)"

definition is_digit :: "char \<Rightarrow> bool" where
  "is_digit c = (let n = (of_char c :: nat) in 48 \<le> n \<and> n \<le> 57)"

definition digits_val :: "string \<Rightarrow> int" where
  "digits_val ds = foldl (\<lambda>a c. 10 * a + (of_char c - 48)) 0 ds"

fun strip_underscores :: "char \<Rightarrow> string \<Rightarrow> string option" where
  \<comment> \<open>numeric literals may have single underscores between digits; they are removed
      before the number is read, and any other underscore is an error\<close>
  "strip_underscores prev [] = (if prev = CHR ''_'' then None else Some [])"
| "strip_underscores prev (c # cs) =
     (if c = CHR ''_'' then (if is_digit prev then strip_underscores c cs else None)
      else if prev = CHR ''_'' \<and> \<not> is_digit c then None
      else map_option ((#) c) (strip_underscores c cs))"

definition c_isspace :: "char \<Rightarrow> bool" where
  "c_isspace c = (let n = (of_char c :: nat) in (9 \<le> n \<and> n \<le> 13) \<or> n = 32)"

definition read_exponent :: "string \<Rightarrow> int option" where
  \<comment> \<open>what follows the \<^verbatim>\<open>e\<close>: an optional sign and at least one digit, nothing else\<close>
  "read_exponent s =
     (let (sg, ds) = (case s of [] \<Rightarrow> (1, [])
                      | c # cs \<Rightarrow> if c = CHR ''-'' then (- 1, cs)
                                  else if c = CHR ''+'' then (1, cs) else (1, s))
      in if ds \<noteq> [] \<and> list_all is_digit ds then Some (sg * digits_val ds) else None)"

definition read_decimal :: "string \<Rightarrow> pyfloat option" where
  \<comment> \<open>digits, an optional point with digits (at least one digit in all), an optional
      exponent; the whole text must be consumed\<close>
  "read_decimal s =
     (let ip = takeWhile is_digit s; r1 = dropWhile is_digit s;
          (fp, r2) = (case r1 of [] \<Rightarrow> ([], r1)
                      | c # cs \<Rightarrow> if c = CHR ''.'' then (takeWhile is_digit cs, dropWhile is_digit cs)
                                  else ([], r1))
      in if ip = [] \<and> fp = [] then None
         else (case r2 of
                 [] \<Rightarrow> Some (to_double (of_int (digits_val (ip @ fp)) * 10 powi (- int (length fp))))
               | c # cs \<Rightarrow>
                   if c = CHR ''e'' \<or> c = CHR ''E'' then
                     map_option
                       (\<lambda>ex. to_double (of_int (digits_val (ip @ fp)) * 10 powi (ex - int (length fp))))
                       (read_exponent cs)
                   else None))"

definition read_unsigned :: "string \<Rightarrow> pyfloat option" where
  "read_unsigned s =
     (if lower s = ''inf'' \<or> lower s = ''infinity'' then Some PosInf
      else if lower s = ''nan'' then Some NaN
      else read_decimal s)"

definition py_float :: "string \<Rightarrow> exn + pyfloat" where
  \<comment> \<open>\<^verbatim>\<open>float(s)\<close> for a string\<close>
  "py_float s =
     (let s1 = rev (dropWhile c_isspace (rev (dropWhile c_isspace s)));
          r = (case strip_underscores (CHR 0x00) s1 of
                 None \<Rightarrow> None
               | Some s2 \<Rightarrow>
                   (case s2 of
                      [] \<Rightarrow> None
                    | c # cs \<Rightarrow> if c = CHR ''-'' then map_option float_neg (read_unsigned cs)
                                else if c = CHR ''+'' then read_unsigned cs
                                else read_unsigned s2))
      in case r of None \<Rightarrow> Inl (ValueError, ''could not convert string to float'')
         | Some x \<Rightarrow> Inr x)"

definition py_int_of_float :: "pyfloat \<Rightarrow> exn + int" where
  \<comment> \<open>\<^verbatim>\<open>int(x)\<close> for a float: truncation towards zero\<close>
  "py_int_of_float x =
     (case x of
        Finite q \<Rightarrow> Inr (if 0 \<le> q then \<lfloor>q\<rfloor> else \<lceil>q\<rceil>)
      | PosInf \<Rightarrow> Inl (OverflowError, ''cannot convert float infinity to integer'')
      | NegInf \<Rightarrow> Inl (OverflowError, ''cannot convert float infinity to integer'')
      | NaN \<Rightarrow> Inl (ValueError, ''cannot convert float NaN to integer''))"

section \<open>The verdict parser (ollama_client.py)\<close>

type_synonym verdict_triple = "string \<times> string \<times> int"

definition confidence_of_line :: "string \<Rightarrow> exn + int" where
  \<comment> \<open>the body of the \<^verbatim>\<open>try\<close> of the CONFIDENCE branch\<close>
  "confidence_of_line line =
     exn_bind (py_index (split1 CHR '':'' line) 1) (\<lambda>t.
       let raw = strip t in
       exn_bind (py_index (split_on CHR ''/'' (replace_char CHR ''%'' raw)) 0) (\<lambda>p.
         let raw = strip p in
         exn_bind (py_float raw) (\<lambda>x.
           exn_bind (py_int_of_float x) (\<lambda>n. Inr (max 0 (min 100 n))))))"

definition parse_line :: "string \<Rightarrow> verdict_triple \<Rightarrow> exn + verdict_triple" where
  \<comment> \<open>one iteration of the loop over the lines\<close>
  "parse_line line0 st =
     (case st of (verdict, reasoning, confidence) \<Rightarrow>
        let line = strip line0 in
        if startswith (upper line) ''VERDICT:'' then
          exn_bind (py_index (split1 CHR '':'' line) 1) (\<lambda>t.
            let verdict_text = lower (strip t) in
            if verdict_text \<in> set [''pass'', ''fail'', ''inconclusive'']
            then Inr (verdict_text, reasoning, confidence)
            else Inr (verdict, reasoning, confidence))
        else if startswith (upper line) ''REASONING:'' then
          exn_bind (py_index (split1 CHR '':'' line) 1) (\<lambda>t. Inr (verdict, strip t, confidence))
        else if startswith (upper line) ''CONFIDENCE:'' then
          (case confidence_of_line line of
             Inr c \<Rightarrow> Inr (verdict, reasoning, c)
           | Inl e \<Rightarrow> if fst e = ValueError \<or> fst e = IndexError
                      then Inr (verdict, reasoning, 50) else Inl e)
        else Inr (verdict, reasoning, confidence))"

fun parse_lines :: "string list \<Rightarrow> verdict_triple \<Rightarrow> exn + verdict_triple" where
  "parse_lines [] st = Inr st"
| "parse_lines (l # ls) st = exn_bind (parse_line l st) (parse_lines ls)"

definition parse_verdict :: "string \<Rightarrow> exn + verdict_triple" where
  "parse_verdict response =
     (let lines = split_on CHR ''\<newline>'' (strip response) in
      exn_bind (parse_lines lines (''inconclusive'', '''', 50)) (\<lambda>st.
        case st of (verdict, reasoning, confidence) \<Rightarrow>
          Inr (verdict, if reasoning = [] then strip response else reasoning, confidence)))"

section \<open>The store (database.py)\<close>

text \<open>
  The store is an SQLite file.  A state of it is the list of rows of each table together
  with the column names each table was created with: a statement that names a column its
  table does not have raises \<^verbatim>\<open>OperationalError\<close>.  Row identifiers assigned by
  \<^verbatim>\<open>AUTOINCREMENT\<close> are never read by the operations below and are left out of the rows.
  SQLite does not enforce the foreign keys (the pragma is never switched on).
\<close>

record submission_row =
  s_id :: string
  s_queue_id :: string
  s_labeling_task_id :: string
  s_created_at :: int
  s_raw_data :: string

record question_row =
  qr_submission_id :: string
  qr_template_id :: string
  qr_type :: string
  qr_text :: string
  qr_content :: "string option"
  qr_rev :: int

record answer_row =
  a_submission_id :: string
  a_template_id :: string
  a_choice :: string
  a_reasoning :: "string option"

record judge_row =
  j_id :: int
  j_name :: string
  j_system_prompt :: string
  j_model_name :: string
  j_active :: bool
  j_created_at :: string

record assignment_row =
  ja_queue_id :: string
  ja_template_id :: string
  ja_judge_id :: int
  ja_created_at :: string

record evaluation_row =
  e_submission_id :: string
  e_template_id :: string
  e_judge_id :: int
  e_verdict :: string
  e_reasoning :: string
  e_confidence_score :: int
  e_created_at :: string

record database =
  tables :: "(string \<times> string list) list"
  submissions :: "submission_row list"
  questions :: "question_row list"
  answers :: "answer_row list"
  judges :: "judge_row list"
  judge_assignments :: "assignment_row list"
  evaluations :: "evaluation_row list"

definition declared_tables :: "(string \<times> string list) list" where
  \<comment> \<open>the six \<^verbatim>\<open>CREATE TABLE\<close> statements of \<^verbatim>\<open>init_db\<close>, column by column\<close>
  "declared_tables =
     [(''submissions'', [''id'', ''queue_id'', ''labeling_task_id'', ''created_at'', ''raw_data'']),
      (''questions'', [''id'', ''submission_id'', ''question_template_id'', ''question_type'',
                       ''question_text'', ''rev'']),
      (''answers'', [''id'', ''submission_id'', ''question_template_id'', ''choice'', ''reasoning'']),
      (''judges'', [''id'', ''name'', ''system_prompt'', ''model_name'', ''active'', ''created_at'']),
      (''judge_assignments'', [''id'', ''queue_id'', ''question_template_id'', ''judge_id'',
                               ''created_at'']),
      (''evaluations'', [''id'', ''submission_id'', ''question_template_id'', ''judge_id'',
                         ''verdict'', ''reasoning'', ''created_at''])]"

definition create_table_if_not_exists ::
  "(string \<times> string list) list \<Rightarrow> string \<times> string list \<Rightarrow> (string \<times> string list) list" where
  "create_table_if_not_exists ts t = (if fst t \<in> set (map fst ts) then ts else ts @ [t])"

definition init_db :: "database \<Rightarrow> database" where
  "init_db db = db\<lparr>tables := foldl create_table_if_not_exists (tables db) declared_tables\<rparr>"

definition empty_database :: database where
  \<comment> \<open>the file before the first start: no table at all\<close>
  "empty_database =
     \<lparr>tables = [], submissions = [], questions = [], answers = [], judges = [],
      judge_assignments = [], evaluations = []\<rparr>"

definition check_insert :: "database \<Rightarrow> string \<Rightarrow> string list \<Rightarrow> exn + unit" where
  "check_insert db t cols =
     (case map_of (tables db) t of
        None \<Rightarrow> Inl (OperationalError, ''no such table: '' @ t)
      | Some cs \<Rightarrow>
          (case filter (\<lambda>c. c \<notin> set cs) cols of
             [] \<Rightarrow> Inr ()
           | c # _ \<Rightarrow> Inl (OperationalError, ''table '' @ t @ '' has no column named '' @ c)))"

definition check_select :: "database \<Rightarrow> string \<Rightarrow> string \<Rightarrow> string list \<Rightarrow> exn + unit" where
  \<comment> \<open>\<open>alias\<close> is the prefix the statement writes before the column names\<close>
  "check_select db t alias cols =
     (case map_of (tables db) t of
        None \<Rightarrow> Inl (OperationalError, ''no such table: '' @ t)
      | Some cs \<Rightarrow>
          (case filter (\<lambda>c. c \<notin> set cs) cols of
             [] \<Rightarrow> Inr ()
           | c # _ \<Rightarrow> Inl (OperationalError, ''no such column: '' @ alias @ c)))"

section \<open>Submission upload (main.py)\<close>

text \<open>
  The input of the upload is taken after validation by the \<^verbatim>\<open>Submission\<close> model:
  a list of submissions, each with its questions, the items of its answers dictionary and
  the JSON text stored as raw data.  All inserts of one upload belong to one transaction:
  an exception leaves the store as it was.
\<close>

record question_data =
  qd_id :: string
  qd_questionType :: string
  qd_questionText :: string
  qd_content :: "string option"

record question =
  qu_rev :: int
  qu_data :: question_data

record answer =
  an_choice :: string
  an_reasoning :: "string option"

record submission =
  su_id :: string
  su_queueId :: string
  su_labelingTaskId :: string
  su_createdAt :: int
  su_questions :: "question list"
  su_answers :: "(string \<times> answer) list"
  su_raw :: string

definition insert_or_replace_submission :: "database \<Rightarrow> submission \<Rightarrow> exn + database" where
  "insert_or_replace_submission db sub =
     exn_bind (check_insert db ''submissions''
                 [''id'', ''queue_id'', ''labeling_task_id'', ''created_at'', ''raw_data'']) (\<lambda>_.
       Inr (db\<lparr>submissions :=
                 filter (\<lambda>r. s_id r \<noteq> su_id sub) (submissions db)
                 @ [\<lparr>s_id = su_id sub, s_queue_id = su_queueId sub,
                     s_labeling_task_id = su_labelingTaskId sub,
                     s_created_at = su_createdAt sub, s_raw_data = su_raw sub\<rparr>]\<rparr>))"

definition insert_question :: "string \<Rightarrow> database \<Rightarrow> question \<Rightarrow> exn + database" where
  "insert_question sid db qn =
     exn_bind (check_insert db ''questions''
                 [''submission_id'', ''question_template_id'', ''question_type'', ''question_text'',
                  ''content'', ''rev'']) (\<lambda>_.
       Inr (db\<lparr>questions := questions db
                 @ [\<lparr>qr_submission_id = sid, qr_template_id = qd_id (qu_data qn),
                     qr_type = qd_questionType (qu_data qn), qr_text = qd_questionText (qu_data qn),
                     qr_content = qd_content (qu_data qn), qr_rev = qu_rev qn\<rparr>]\<rparr>))"

definition insert_answer :: "string \<Rightarrow> database \<Rightarrow> string \<times> answer \<Rightarrow> exn + database" where
  "insert_answer sid db item =
     exn_bind (check_insert db ''answers''
                 [''submission_id'', ''question_template_id'', ''choice'', ''reasoning'']) (\<lambda>_.
       Inr (db\<lparr>answers := answers db
                 @ [\<lparr>a_submission_id = sid, a_template_id = fst item,
                     a_choice = an_choice (snd item), a_reasoning = an_reasoning (snd item)\<rparr>]\<rparr>))"

fun for_each :: "('s \<Rightarrow> 'a \<Rightarrow> exn + 's) \<Rightarrow> 'a list \<Rightarrow> 's \<Rightarrow> exn + 's" where
  \<comment> \<open>a \<^verbatim>\<open>for\<close> loop whose body may raise: the first exception ends the loop\<close>
  "for_each body [] s = Inr s"
| "for_each body (x # xs) s = exn_bind (body s x) (for_each body xs)"

definition upload_one :: "database \<times> nat \<Rightarrow> submission \<Rightarrow> exn + database \<times> nat" where
  "upload_one st sub =
     (case st of (db, inserted_count) \<Rightarrow>
        exn_bind (insert_or_replace_submission db sub) (\<lambda>db1.
          exn_bind (for_each (insert_question (su_id sub)) (su_questions sub) db1) (\<lambda>db2.
            exn_bind (for_each (insert_answer (su_id sub)) (su_answers sub) db2) (\<lambda>db3.
              Inr (db3, inserted_count + 1)))))"

definition upload_submissions :: "database \<Rightarrow> submission list \<Rightarrow> exn + database \<times> nat" where
  \<comment> \<open>the new store and the number of submissions the message reports\<close>
  "upload_submissions db submissions_data = for_each upload_one submissions_data (db, 0)"

section \<open>The evaluation run (main.py)\<close>

subsection \<open>The judge invoker\<close>

text \<open>
  The language-model backend is outside the program: \<open>backend env k p\<close> is what the
  \<open>k\<close>-th request of a run, with payload \<open>p\<close>, ends in.  \<open>HttpFailure\<close> stands for
  every \<^verbatim>\<open>httpx.HTTPError\<close> (transport failure, non-success status), \<open>OtherFailure\<close>
  for any other exception of the call.  \<open>clock env k\<close> is the ISO time read after the
  \<open>k\<close>-th request.
\<close>

record payload =
  p_model :: string
  p_prompt :: string
  p_system :: "string option"
  p_stream :: bool

datatype reply = Reply string | HttpFailure string | OtherFailure string

record environment =
  backend :: "nat \<Rightarrow> payload \<Rightarrow> reply"
  clock :: "nat \<Rightarrow> string"

definition make_payload :: "string \<Rightarrow> string \<Rightarrow> string \<Rightarrow> payload" where
  "make_payload model prompt system =
     \<lparr>p_model = model, p_prompt = prompt,
      p_system = (if system = [] then None else Some system), p_stream = False\<rparr>"

definition generate :: "environment \<Rightarrow> nat \<Rightarrow> string \<Rightarrow> string \<Rightarrow> string \<Rightarrow> exn + string" where
  "generate env k model prompt system =
     (case backend env k (make_payload model prompt system) of
        Reply text \<Rightarrow> Inr text
      | HttpFailure msg \<Rightarrow> Inl (HTTPError, msg)
      | OtherFailure msg \<Rightarrow> Inl (OtherException, msg))"

subsection \<open>The prompt\<close>

definition em_dash :: string where
  \<comment> \<open>the UTF-8 encoding of the dash U+2014 that the rubric text contains\<close>
  "em_dash = [CHR 0xE2, CHR 0x80, CHR 0x94]"

definition context_section :: "string option \<Rightarrow> string" where
  "context_section q_content =
     (case q_content of
        None \<Rightarrow> []
      | Some content \<Rightarrow>
          if content = [] then []
          else ''\<newline>''
             @ ''=== CONTEXT ===\<newline>''
             @ ''The following is the source material that the question and answer refer to. You MUST use this context to verify the accuracy of the answer. Do not evaluate the answer in isolation ''
             @ em_dash
             @ '' ground your judgment in the specific details provided here.\<newline>''
             @ ''\<newline>''
               @ content
               @ ''\<newline>''
             @ ''\<newline>'')"

definition evaluation_task :: string where
  "evaluation_task =
      ''\<newline>''
      @ ''\<newline>''
      @ ''=== YOUR EVALUATION TASK ===\<newline>''
      @ ''You are evaluating whether the human analyst's answer above is correct and well-reasoned. Analyze it against the following criteria:\<newline>''
      @ ''\<newline>''
      @ ''1. **Factual Accuracy**: Does the chosen answer correctly reflect what is shown in the context? Are specific values, thresholds, and facts cited accurately?\<newline>''
      @ ''2. **Reasoning Consistency**: Does the reasoning logically support the stated choice? If the reasoning contradicts the choice (e.g., the reasoning describes a violation but the choice says \"compliant\"), this is a FAIL regardless of whether either part is independently correct.\<newline>''
      @ ''3. **Completeness**: Does the reasoning address the key factors relevant to the question, or does it overlook critical details present in the context?\<newline>''
      @ ''4. **Domain Correctness**: Are domain-specific terms, standards, and thresholds applied correctly?\<newline>''
      @ ''\<newline>''
      @ ''IMPORTANT RULES:\<newline>''
      @ ''- A contradictory answer (where reasoning contradicts the choice) is always a FAIL.\<newline>''
      @ ''- If the context provides specific data that clearly supports or refutes the answer, use it. Do not speculate beyond what is given.\<newline>''
      @ ''- If there is insufficient context to make a determination, verdict should be INCONCLUSIVE.\<newline>''
      @ ''- Be precise in your reasoning ''
      @ em_dash
      @ '' cite specific values, thresholds, or code patterns from the context.\<newline>''
      @ ''\<newline>''
      @ ''Respond in EXACTLY this format (three lines, no extra text):\<newline>''
      @ ''VERDICT: pass|fail|inconclusive\<newline>''
      @ ''REASONING: [Your detailed explanation citing specific evidence from the context]\<newline>''
      @ ''CONFIDENCE: [0-100, where 100 means absolute certainty in your verdict]''"

definition build_prompt :: "string option \<Rightarrow> string \<Rightarrow> string \<Rightarrow> string" where
  "build_prompt q_content q_text answer_text =
      context_section q_content
      @ ''=== QUESTION BEING EVALUATED ===\<newline>''
      @ q_text
      @ ''\<newline>''
      @ ''\<newline>''
      @ ''=== HUMAN ANALYST'S ANSWER ===\<newline>''
      @ answer_text
      @ evaluation_task"

definition answer_text_of :: "string \<Rightarrow> string option \<Rightarrow> string" where
  "answer_text_of choice reasoning =
     ''Choice: '' @ choice
     @ (case reasoning of
          None \<Rightarrow> []
        | Some r \<Rightarrow> if r = [] then [] else ''\<newline>Reasoning: '' @ r)"

subsection \<open>The queries of the run\<close>

definition select_submission_ids :: "database \<Rightarrow> string \<Rightarrow> exn + string list" where
  "select_submission_ids db queue_id =
     exn_bind (check_select db ''submissions'' [] [''id'', ''queue_id'']) (\<lambda>_.
       Inr (map s_id (filter (\<lambda>r. s_queue_id r = queue_id) (submissions db))))"

definition select_questions :: "database \<Rightarrow> string \<Rightarrow> exn + question_row list" where
  "select_questions db sub_id =
     exn_bind (check_select db ''questions'' []
                 [''question_template_id'', ''question_text'', ''content'', ''submission_id'']) (\<lambda>_.
       Inr (filter (\<lambda>r. qr_submission_id r = sub_id) (questions db)))"

definition select_judges :: "database \<Rightarrow> string \<Rightarrow> string \<Rightarrow> exn + judge_row list" where
  \<comment> \<open>the join of judges with their assignments: one row for each pair that matches\<close>
  "select_judges db queue_id q_template_id =
     exn_bind (check_select db ''judges'' ''j.''
                 [''id'', ''name'', ''system_prompt'', ''model_name'', ''active'']) (\<lambda>_.
       exn_bind (check_select db ''judge_assignments'' ''ja.''
                   [''judge_id'', ''queue_id'', ''question_template_id'']) (\<lambda>_.
         Inr (concat (map (\<lambda>j. map (\<lambda>_. j)
                (filter (\<lambda>ja. j_id j = ja_judge_id ja \<and> ja_queue_id ja = queue_id
                               \<and> ja_template_id ja = q_template_id \<and> j_active j)
                        (judge_assignments db)))
              (judges db)))))"

definition select_answer :: "database \<Rightarrow> string \<Rightarrow> string \<Rightarrow> exn + answer_row option" where
  \<comment> \<open>\<^verbatim>\<open>fetchone\<close>: the first matching row, or nothing\<close>
  "select_answer db sub_id q_template_id =
     exn_bind (check_select db ''answers'' []
                 [''choice'', ''reasoning'', ''submission_id'', ''question_template_id'']) (\<lambda>_.
       Inr (case filter (\<lambda>r. a_submission_id r = sub_id \<and> a_template_id r = q_template_id)
                        (answers db) of
              [] \<Rightarrow> None
            | r # _ \<Rightarrow> Some r))"

definition insert_evaluation :: "database \<Rightarrow> evaluation_row \<Rightarrow> exn + database" where
  "insert_evaluation db row =
     exn_bind (check_insert db ''evaluations''
                 [''submission_id'', ''question_template_id'', ''judge_id'', ''verdict'',
                  ''reasoning'', ''confidence_score'', ''created_at'']) (\<lambda>_.
       Inr (db\<lparr>evaluations := evaluations db @ [row]\<rparr>))"

subsection \<open>The loops\<close>

record run_state =
  planned :: nat
  completed :: nat
  failed :: nat
  errors :: "string list"
  store :: database
  invoked :: "payload list"

record run_response =
  r_planned :: nat
  r_completed :: nat
  r_failed :: nat
  r_errors :: "string list"

definition apostrophe :: string where
  "apostrophe = [CHR 0x27]"

definition error_message :: "exn \<Rightarrow> string \<Rightarrow> string" where
  \<comment> \<open>the two \<^verbatim>\<open>except\<close> clauses of the judge loop\<close>
  "error_message e judge_name =
     (if fst e = HTTPError
      then ''HTTP error for judge '' @ apostrophe @ judge_name @ apostrophe @ '': '' @ snd e
      else ''Error running judge '' @ apostrophe @ judge_name @ apostrophe @ '': '' @ snd e)"

definition attempt ::
  "environment \<Rightarrow> nat \<Rightarrow> database \<Rightarrow> string \<Rightarrow> question_row \<Rightarrow> string \<Rightarrow> judge_row \<Rightarrow> exn + database" where
  \<comment> \<open>the body of the \<^verbatim>\<open>try\<close>: invoke, parse, persist\<close>
  "attempt env k db sub_id q_row answer_text judge =
     exn_bind (generate env k (j_model_name judge)
                 (build_prompt (qr_content q_row) (qr_text q_row) answer_text)
                 (j_system_prompt judge)) (\<lambda>response.
       exn_bind (parse_verdict response) (\<lambda>parsed.
         case parsed of (verdict, reasoning, confidence) \<Rightarrow>
           insert_evaluation db
             \<lparr>e_submission_id = sub_id, e_template_id = qr_template_id q_row,
              e_judge_id = j_id judge, e_verdict = verdict, e_reasoning = reasoning,
              e_confidence_score = confidence, e_created_at = clock env k\<rparr>))"

definition run_judge ::
  "environment \<Rightarrow> string \<Rightarrow> question_row \<Rightarrow> string \<Rightarrow> run_state \<Rightarrow> judge_row \<Rightarrow> run_state" where
  "run_judge env sub_id q_row answer_text st judge =
     (let k = length (invoked st);
          st1 = st\<lparr>planned := planned st + 1,
                   invoked := invoked st
                     @ [make_payload (j_model_name judge)
                          (build_prompt (qr_content q_row) (qr_text q_row) answer_text)
                          (j_system_prompt judge)]\<rparr>
      in case attempt env k (store st) sub_id q_row answer_text judge of
           Inr db' \<Rightarrow> st1\<lparr>store := db', completed := completed st1 + 1\<rparr>
         | Inl e \<Rightarrow> st1\<lparr>failed := failed st1 + 1,
                         errors := errors st1 @ [error_message e (j_name judge)]\<rparr>)"

type_synonym aborted = "exn \<times> run_state"

definition run_question ::
  "environment \<Rightarrow> string \<Rightarrow> string \<Rightarrow> run_state \<Rightarrow> question_row \<Rightarrow> aborted + run_state" where
  "run_question env queue_id sub_id st q_row =
     (case select_judges (store st) queue_id (qr_template_id q_row) of
        Inl e \<Rightarrow> Inl (e, st)
      | Inr judge_rows \<Rightarrow>
          (case select_answer (store st) sub_id (qr_template_id q_row) of
             Inl e \<Rightarrow> Inl (e, st)
           | Inr None \<Rightarrow> Inr st
           | Inr (Some answer_row) \<Rightarrow>
               Inr (foldl (run_judge env sub_id q_row
                             (answer_text_of (a_choice answer_row) (a_reasoning answer_row)))
                      st judge_rows)))"

fun run_questions ::
  "environment \<Rightarrow> string \<Rightarrow> string \<Rightarrow> question_row list \<Rightarrow> run_state \<Rightarrow> aborted + run_state" where
  "run_questions env queue_id sub_id [] st = Inr st"
| "run_questions env queue_id sub_id (q_row # rest) st =
     (case run_question env queue_id sub_id st q_row of
        Inl a \<Rightarrow> Inl a
      | Inr st' \<Rightarrow> run_questions env queue_id sub_id rest st')"

definition run_submission ::
  "environment \<Rightarrow> string \<Rightarrow> run_state \<Rightarrow> string \<Rightarrow> aborted + run_state" where
  "run_submission env queue_id st sub_id =
     (case select_questions (store st) sub_id of
        Inl e \<Rightarrow> Inl (e, st)
      | Inr question_rows \<Rightarrow> run_questions env queue_id sub_id question_rows st)"

fun run_submissions ::
  "environment \<Rightarrow> string \<Rightarrow> string list \<Rightarrow> run_state \<Rightarrow> aborted + run_state" where
  "run_submissions env queue_id [] st = Inr st"
| "run_submissions env queue_id (sub_id # rest) st =
     (case run_submission env queue_id st sub_id of
        Inl a \<Rightarrow> Inl a
      | Inr st' \<Rightarrow> run_submissions env queue_id rest st')"

definition initial_state :: "database \<Rightarrow> run_state" where
  "initial_state db =
     \<lparr>planned = 0, completed = 0, failed = 0, errors = [], store = db, invoked = []\<rparr>"

definition response_of :: "run_state \<Rightarrow> run_response" where
  "response_of st =
     \<lparr>r_planned = planned st, r_completed = completed st, r_failed = failed st,
      r_errors = take 10 (errors st)\<rparr>"

definition run_evaluations ::
  "environment \<Rightarrow> database \<Rightarrow> string \<Rightarrow> aborted + run_response \<times> run_state" where
  \<comment> \<open>the response, with the state the run ends in (the store and the requests made);
      a run that raises ends in \<open>Inl\<close> with the exception and the state reached\<close>
  "run_evaluations env db queue_id =
     (case select_submission_ids db queue_id of
        Inl e \<Rightarrow> Inl (e, initial_state db)
      | Inr submission_ids \<Rightarrow>
          (case run_submissions env queue_id submission_ids (initial_state db) of
             Inl a \<Rightarrow> Inl a
           | Inr st \<Rightarrow> Inr (response_of st, st)))"

section \<open>Statistics (main.py)\<close>

definition py_int :: "string \<Rightarrow> exn + int" where
  \<comment> \<open>\<^verbatim>\<open>int(s)\<close> for a string, base ten\<close>
  "py_int s =
     (let s1 = strip s;
          (sg, body) = (case s1 of [] \<Rightarrow> (1, [])
                        | c # cs \<Rightarrow> if c = CHR ''-'' then (- 1, cs)
                                    else if c = CHR ''+'' then (1, cs) else (1, s1))
      in case strip_underscores (CHR 0x00) body of
           None \<Rightarrow> Inl (ValueError, ''invalid literal for int() with base 10'')
         | Some ds \<Rightarrow>
             if ds \<noteq> [] \<and> list_all is_digit ds then Inr (sg * digits_val ds)
             else Inl (ValueError, ''invalid literal for int() with base 10''))"

fun map_exn :: "('a \<Rightarrow> exn + 'b) \<Rightarrow> 'a list \<Rightarrow> exn + 'b list" where
  \<comment> \<open>a list comprehension whose element expression may raise\<close>
  "map_exn f [] = Inr []"
| "map_exn f (x # xs) = exn_bind (f x) (\<lambda>y. exn_bind (map_exn f xs) (\<lambda>ys. Inr (y # ys)))"

definition int_truediv :: "int \<Rightarrow> int \<Rightarrow> pyfloat" where
  \<comment> \<open>\<^verbatim>\<open>a / b\<close> on integers, for \<open>b \<noteq> 0\<close>: the correctly rounded quotient\<close>
  "int_truediv a b = to_double (of_int a / of_int b)"

definition times_100 :: "pyfloat \<Rightarrow> pyfloat" where
  "times_100 x =
     (case x of Finite q \<Rightarrow> to_double (q * 100) | PosInf \<Rightarrow> PosInf | NegInf \<Rightarrow> NegInf | NaN \<Rightarrow> NaN)"

definition py_round :: "pyfloat \<Rightarrow> nat \<Rightarrow> pyfloat" where
  \<comment> \<open>\<^verbatim>\<open>round(x, n)\<close>: the exact value rounded to \<open>n\<close> decimals, ties to even, read
      back as a float; infinities and NaN round to themselves\<close>
  "py_round x n =
     (case x of
        Finite q \<Rightarrow> to_double (of_int (round_half_even (q * 10 ^ n)) / 10 ^ n)
      | PosInf \<Rightarrow> PosInf | NegInf \<Rightarrow> NegInf | NaN \<Rightarrow> NaN)"

definition sql_avg :: "int list \<Rightarrow> pyfloat option" where
  \<comment> \<open>\<^verbatim>\<open>AVG\<close>: NULL over no row, else the sum divided by the count as a float (SQLite adds
      the values up in floating point, which is exact while the sum is below \<open>2 ^ 53\<close>)\<close>
  "sql_avg xs = (if xs = [] then None else Some (to_double (of_int (sum_list xs) / of_nat (length xs))))"

record evaluation_stats =
  es_total :: int
  es_pass_count :: int
  es_fail_count :: int
  es_inconclusive_count :: int
  es_pass_rate :: pyfloat
  es_avg_confidence :: pyfloat

definition given :: "string option \<Rightarrow> string option" where
  \<comment> \<open>a query parameter counts as given when it is neither absent nor empty\<close>
  "given p = (case p of None \<Rightarrow> None | Some s \<Rightarrow> if s = [] then None else Some s)"

definition filter_columns :: "string option \<Rightarrow> string option \<Rightarrow> string option \<Rightarrow> string list" where
  \<comment> \<open>the columns the \<^verbatim>\<open>WHERE\<close> clause names, in the order it names them\<close>
  "filter_columns judge_ids question_ids verdict =
     (if given judge_ids = None then [] else [''judge_id''])
     @ (if given question_ids = None then [] else [''question_template_id''])
     @ (if given verdict = None then [] else [''verdict''])"

definition filtered_evaluations ::
  "database \<Rightarrow> int list option \<Rightarrow> string list option \<Rightarrow> string option \<Rightarrow> evaluation_row list" where
  "filtered_evaluations db jids qids verdict =
     filter (\<lambda>r. (case jids of None \<Rightarrow> True | Some ids \<Rightarrow> e_judge_id r \<in> set ids)
                \<and> (case qids of None \<Rightarrow> True | Some ids \<Rightarrow> e_template_id r \<in> set ids)
                \<and> (case verdict of None \<Rightarrow> True | Some v \<Rightarrow> e_verdict r = v))
            (evaluations db)"

definition count_of :: "(string \<times> int) list \<Rightarrow> string \<Rightarrow> int" where
  "count_of stats k = (case map_of stats k of None \<Rightarrow> 0 | Some n \<Rightarrow> n)"

definition get_evaluation_stats ::
  "database \<Rightarrow> string option \<Rightarrow> string option \<Rightarrow> string option \<Rightarrow> exn + evaluation_stats" where
  "get_evaluation_stats db judge_ids question_ids verdict =
     exn_bind (case given judge_ids of
                 None \<Rightarrow> Inr None
               | Some s \<Rightarrow> exn_bind (map_exn (\<lambda>i. py_int (strip i)) (split_on CHR '','' s))
                                    (\<lambda>ids. Inr (Some ids))) (\<lambda>jids.
       let qids = map_option (\<lambda>s. map strip (split_on CHR '','' s)) (given question_ids) in
       exn_bind (check_select db ''evaluations'' []
                   (''verdict'' # filter_columns judge_ids question_ids verdict)) (\<lambda>_.
         let rows = filtered_evaluations db jids qids (given verdict);
             groups = map (\<lambda>v. (v, int (length (filter (\<lambda>r. e_verdict r = v) rows))))
                          (remdups (map e_verdict rows));
             stats = foldl (\<lambda>m g. AList.update (fst g) (snd g) m)
                           [(''pass'', 0), (''fail'', 0), (''inconclusive'', 0)] groups;
             total = sum_list (map snd stats);
             pass_rate = (if 0 < total then times_100 (int_truediv (count_of stats ''pass'') total)
                          else Finite 0)
         in exn_bind (check_select db ''evaluations'' []
                        (''confidence_score'' # filter_columns judge_ids question_ids verdict)) (\<lambda>_.
              let avg_confidence = (case sql_avg (map e_confidence_score rows) of
                                      Some x \<Rightarrow> py_round x 1
                                    | None \<Rightarrow> Finite 50)
              in Inr \<lparr>es_total = total, es_pass_count = count_of stats ''pass'',
                      es_fail_count = count_of stats ''fail'',
                      es_inconclusive_count = count_of stats ''inconclusive'',
                      es_pass_rate = py_round pass_rate 2,
                      es_avg_confidence = avg_confidence\<rparr>)))"

section \<open>Scenarios\<close>

text \<open>
  Concrete stores and backends on which the operations are evaluated.  \<open>with_column\<close>
  gives a table one more column: a store file that was not created by \<open>init_db\<close> alone.
\<close>

definition with_column ::
  "string \<Rightarrow> string \<Rightarrow> (string \<times> string list) list \<Rightarrow> (string \<times> string list) list" where
  "with_column t c ts = map (\<lambda>p. if fst p = t then (fst p, snd p @ [c]) else p) ts"

definition extended_tables :: "(string \<times> string list) list" where
  \<comment> \<open>the declared tables with the two columns the statements of main.py name in addition\<close>
  "extended_tables =
     with_column ''evaluations'' ''confidence_score'' (with_column ''questions'' ''content'' declared_tables)"

definition judge_numbered :: "int \<Rightarrow> string \<Rightarrow> judge_row" where
  "judge_numbered i name =
     \<lparr>j_id = i, j_name = name, j_system_prompt = ''Be strict.'', j_model_name = ''llama2'',
      j_active = True, j_created_at = ''2024-01-01T00:00:00''\<rparr>"

definition assigned :: "int \<Rightarrow> assignment_row" where
  "assigned i =
     \<lparr>ja_queue_id = ''Q1'', ja_template_id = ''q1'', ja_judge_id = i,
      ja_created_at = ''2024-01-01T00:00:00''\<rparr>"

definition one_question_store :: "(string \<times> string list) list \<Rightarrow> judge_row list \<Rightarrow> database" where
  \<comment> \<open>queue Q1 with one submission, its one question without grounding content answered
      ``yes'', and the given judges, all assigned to the question\<close>
  "one_question_store ts js =
     \<lparr>tables = ts,
      submissions = [\<lparr>s_id = ''S1'', s_queue_id = ''Q1'', s_labeling_task_id = ''T1'',
                      s_created_at = 0, s_raw_data = ''{}''\<rparr>],
      questions = [\<lparr>qr_submission_id = ''S1'', qr_template_id = ''q1'',
                    qr_type = ''single_choice'', qr_text = ''Is X compliant?'',
                    qr_content = None, qr_rev = 1\<rparr>],
      answers = [\<lparr>a_submission_id = ''S1'', a_template_id = ''q1'', a_choice = ''yes'',
                  a_reasoning = None\<rparr>],
      judges = js,
      judge_assignments = map (\<lambda>j. assigned (j_id j)) js,
      evaluations = []\<rparr>"

definition well_formed_reply :: string where
  "well_formed_reply = ''VERDICT: pass\<newline>REASONING: ok\<newline>CONFIDENCE: 90''"

definition replying :: environment where
  \<comment> \<open>a backend that answers every request with the well-formed reply\<close>
  "replying = \<lparr>backend = (\<lambda>k p. Reply well_formed_reply), clock = (\<lambda>k. ''2024-01-02T00:00:00'')\<rparr>"

definition second_fails :: environment where
  \<comment> \<open>a backend whose second request fails and whose other requests are answered\<close>
  "second_fails =
     \<lparr>backend = (\<lambda>k p. if k = 1 then HttpFailure ''connection refused'' else Reply well_formed_reply),
      clock = (\<lambda>k. ''2024-01-02T00:00:00'')\<rparr>"

definition three_judges :: "judge_row list" where
  "three_judges = [judge_numbered 1 ''J1'', judge_numbered 2 ''J2'', judge_numbered 3 ''J3'']"

definition answers_only :: submission where
  \<comment> \<open>a submission without questions and with one answer\<close>
  "answers_only =
     \<lparr>su_id = ''S1'', su_queueId = ''Q1'', su_labelingTaskId = ''T1'', su_createdAt = 0,
      su_questions = [],
      su_answers = [(''q1'', \<lparr>an_choice = ''yes'', an_reasoning = None\<rparr>)],
      su_raw = ''{}''\<rparr>"

definition answers_unique :: "database \<Rightarrow> bool" where
  \<comment> \<open>at most one answer row for each pair of submission and question template\<close>
  "answers_unique db = distinct (map (\<lambda>r. (a_submission_id r, a_template_id r)) (answers db))"



definition second_question :: question_row where
  "second_question =
     \<lparr>qr_submission_id = ''S1'', qr_template_id = ''q2'', qr_type = ''single_choice'',
      qr_text = ''Is Y compliant?'', qr_content = None, qr_rev = 1\<rparr>"

definition two_question_store :: "(string \<times> string list) list \<Rightarrow> judge_row list \<Rightarrow> database" where
  \<comment> \<open>the one-question store with a second question of the same submission, to which the
      judges are assigned as well and for which there is no answer\<close>
  "two_question_store ts js =
     (one_question_store ts js)
       \<lparr>questions := questions (one_question_store ts js) @ [second_question],
        judge_assignments := judge_assignments (one_question_store ts js)
          @ map (\<lambda>j. (assigned (j_id j))\<lparr>ja_template_id := ''q2''\<rparr>) js\<rparr>"

definition evaluation :: "string \<Rightarrow> int \<Rightarrow> evaluation_row" where
  "evaluation v c =
     \<lparr>e_submission_id = ''S1'', e_template_id = ''q1'', e_judge_id = 1, e_verdict = v,
      e_reasoning = ''ok'', e_confidence_score = c, e_created_at = ''2024-01-02T00:00:00''\<rparr>"

section \<open>Notions used in the statements\<close>

subsection \<open>Lines of a reply\<close>

text \<open>
  The three tests of the \<^verbatim>\<open>if\<close>/\<^verbatim>\<open>elif\<close> chain of the parser, the text a line
  carries after its first colon, and the confidence a CONFIDENCE line stands for when its
  conversion does not leave the function.
\<close>

definition response_lines :: "string \<Rightarrow> string list" where
  "response_lines response = split_on CHR ''\<newline>'' (strip response)"

definition verdict_line :: "string \<Rightarrow> bool" where
  "verdict_line l = startswith (upper (strip l)) ''VERDICT:''"

definition reasoning_line :: "string \<Rightarrow> bool" where
  "reasoning_line l = startswith (upper (strip l)) ''REASONING:''"

definition confidence_line :: "string \<Rightarrow> bool" where
  "confidence_line l = startswith (upper (strip l)) ''CONFIDENCE:''"

definition text_after :: "string \<Rightarrow> string" where
  \<comment> \<open>the text of a line after its first colon, trimmed\<close>
  "text_after l = strip (tl (dropWhile (\<lambda>c. c \<noteq> CHR '':'') (strip l)))"

definition valid_verdict_line :: "string \<Rightarrow> bool" where
  "valid_verdict_line l =
     (verdict_line l \<and> lower (text_after l) \<in> set [''pass'', ''fail'', ''inconclusive''])"

definition line_confidence :: "string \<Rightarrow> int" where
  "line_confidence l = (case confidence_of_line (strip l) of Inr n \<Rightarrow> n | Inl e \<Rightarrow> 50)"

definition last_or :: "'a \<Rightarrow> 'a list \<Rightarrow> 'a" where
  "last_or d xs = (if xs = [] then d else last xs)"




subsection \<open>States of a run\<close>

definition counters_consistent :: "run_state \<Rightarrow> bool" where
  "counters_consistent st = (planned st = completed st + failed st)"

definition same_inputs :: "database \<Rightarrow> database \<Rightarrow> bool" where
  \<comment> \<open>two stores that differ in their evaluations at most\<close>
  "same_inputs db db' =
     (tables db' = tables db \<and> submissions db' = submissions db \<and> questions db' = questions db
      \<and> answers db' = answers db \<and> judges db' = judges db
      \<and> judge_assignments db' = judge_assignments db)"

definition run_readable :: "database \<Rightarrow> bool" where
  \<comment> \<open>the tables have the columns that the five queries of the run name\<close>
  "run_readable db =
     (check_select db ''submissions'' [] [''id'', ''queue_id''] = Inr ()
      \<and> check_select db ''questions'' []
            [''question_template_id'', ''question_text'', ''content'', ''submission_id''] = Inr ()
      \<and> check_select db ''judges'' ''j.''
            [''id'', ''name'', ''system_prompt'', ''model_name'', ''active''] = Inr ()
      \<and> check_select db ''judge_assignments'' ''ja.''
            [''judge_id'', ''queue_id'', ''question_template_id''] = Inr ()
      \<and> check_select db ''answers'' []
            [''choice'', ''reasoning'', ''submission_id'', ''question_template_id''] = Inr ())"

section \<open>Properties of the verdict parser\<close>

subsection \<open>The lines and the loop\<close>

lemma of_char_colon: "of_char c = (58::nat) \<Longrightarrow> c = CHR '':''"
proof -
  assume "of_char c = (58::nat)"
  then have "of_char c = (of_char (CHR '':'') :: nat)" by simp
  then show ?thesis by (simp only: of_char_eq_iff)
qed

lemma char_upper_colon: "char_upper c = CHR '':'' \<Longrightarrow> c = CHR '':''"
proof -
  assume "char_upper c = CHR '':''"
  then have "(of_char (char_upper c) :: nat) = 58"
    by simp
  then show ?thesis
    by (cases "97 \<le> (of_char c :: nat) \<and> (of_char c :: nat) \<le> 122")
       (auto simp: char_upper_def Let_def of_char_colon)
qed

lemma colon_in_line:
  assumes "prefix p (upper l)" and "CHR '':'' \<in> set p"
  shows "CHR '':'' \<in> set l"
proof -
  from assms have "CHR '':'' \<in> set (upper l)"
    using set_mono_prefix by blast
  then show ?thesis
    by (auto simp: upper_def dest: char_upper_colon [OF sym])
qed

lemma after_colon:
  "CHR '':'' \<in> set l \<Longrightarrow>
   py_index (split1 CHR '':'' l) (Suc 0) = Inr (tl (dropWhile (\<lambda>c. c \<noteq> CHR '':'') l))"
  by (simp add: split1_def py_index_def)

lemma kinds_exclusive:
  "verdict_line l \<Longrightarrow> \<not> reasoning_line l"
  "verdict_line l \<Longrightarrow> \<not> confidence_line l"
  "reasoning_line l \<Longrightarrow> \<not> confidence_line l"
  by (auto simp: verdict_line_def reasoning_line_def confidence_line_def startswith_def prefix_def)

lemma parse_line_verdict:
  "verdict_line l \<Longrightarrow>
   parse_line l (v, r, c)
   = Inr (if valid_verdict_line l then lower (text_after l) else v, r, c)"
  using colon_in_line [of "''VERDICT:''" "strip l"]
  by (simp add: parse_line_def verdict_line_def valid_verdict_line_def text_after_def
      startswith_def after_colon exn_bind_def Let_def)

lemma parse_line_reasoning:
  "reasoning_line l \<Longrightarrow> parse_line l (v, r, c) = Inr (v, text_after l, c)"
  using colon_in_line [of "''REASONING:''" "strip l"] kinds_exclusive(1) [of l]
  by (auto simp add: parse_line_def verdict_line_def reasoning_line_def text_after_def
      startswith_def after_colon exn_bind_def Let_def)

lemma parse_line_confidence:
  "confidence_line l \<Longrightarrow> parse_line l (v, r, c) = Inr (v', r', c')
   \<Longrightarrow> v' = v \<and> r' = r \<and> c' = line_confidence l"
  using kinds_exclusive(2,3) [of l]
  by (auto simp add: parse_line_def verdict_line_def reasoning_line_def confidence_line_def
      line_confidence_def Let_def split: sum.splits if_splits)


lemma parse_line_other:
  "\<not> verdict_line l \<Longrightarrow> \<not> reasoning_line l \<Longrightarrow> \<not> confidence_line l
   \<Longrightarrow> parse_line l st = Inr st"
  by (cases st) (simp add: parse_line_def verdict_line_def reasoning_line_def confidence_line_def Let_def)

lemma parse_lines_append:
  "parse_lines (xs @ ys) st = exn_bind (parse_lines xs st) (parse_lines ys)"
  by (induction xs arbitrary: st) (auto simp: exn_bind_def split: sum.splits)

lemma parse_lines_snoc:
  "parse_lines (ls @ [l]) st = Inr st' \<Longrightarrow>
   \<exists>st1. parse_lines ls st = Inr st1 \<and> parse_line l st1 = Inr st'"
  by (auto simp: parse_lines_append exn_bind_def split: sum.splits)

text \<open>
  What the loop leaves in its three variables: for each prefix, the value of the last
  line that sets it.
\<close>

lemma loop_result:
  "parse_lines ls (v0, r0, c0) = Inr (v, r, c) \<Longrightarrow>
     v = last_or v0 (map (\<lambda>l. lower (text_after l)) (filter valid_verdict_line ls))
   \<and> r = last_or r0 (map text_after (filter reasoning_line ls))
   \<and> c = last_or c0 (map line_confidence (filter confidence_line ls))"
proof (induction ls arbitrary: v r c rule: rev_induct)
  case Nil
  then show ?case by (simp add: last_or_def)
next
  case (snoc l ls)
  from parse_lines_snoc [OF snoc.prems] obtain v1 r1 c1
    where before: "parse_lines ls (v0, r0, c0) = Inr (v1, r1, c1)"
      and step: "parse_line l (v1, r1, c1) = Inr (v, r, c)"
    by (metis prod_cases3)
  note ih = snoc.IH [OF before]
  consider (V) "verdict_line l" | (R) "reasoning_line l" | (C) "confidence_line l"
    | (O) "\<not> verdict_line l" "\<not> reasoning_line l" "\<not> confidence_line l"
    by blast
  then show ?case
  proof cases
    case V
    with step ih kinds_exclusive(1,2) [OF V] show ?thesis
      by (auto simp: parse_line_verdict last_or_def valid_verdict_line_def)
  next
    case R
    with step ih kinds_exclusive(1) [of l] kinds_exclusive(3) [OF R] show ?thesis
      by (auto simp: parse_line_reasoning last_or_def valid_verdict_line_def)
  next
    case C
    with parse_line_confidence [OF C step] ih kinds_exclusive(2,3) [of l] show ?thesis
      by (auto simp: last_or_def valid_verdict_line_def)
  next
    case O
    with step ih show ?thesis
      by (auto simp: parse_line_other last_or_def valid_verdict_line_def)
  qed
qed

lemma line_confidence_range: "0 \<le> line_confidence l \<and> line_confidence l \<le> 100"
  by (auto simp: line_confidence_def confidence_of_line_def exn_bind_def Let_def split: sum.splits)

lemma parse_verdict_loop:
  assumes "parse_verdict response = Inr (v, rs, c)"
  obtains r where "parse_lines (response_lines response) (''inconclusive'', [], 50) = Inr (v, r, c)"
    and "rs = (if r = [] then strip response else r)"
  using assms
  by (auto simp: parse_verdict_def response_lines_def exn_bind_def Let_def split: sum.splits prod.splits)

subsection \<open>Totality\<close>

text \<open>
  C2.  The claim is that \<open>parse_verdict\<close> returns for every input string, with a
  verdict among the three values and a confidence from 0 to 100.  The confidence branch
  catches \<^verbatim>\<open>ValueError\<close> and \<^verbatim>\<open>IndexError\<close> only: a confidence text that reads as an
  infinite float makes the conversion to an integer raise \<^verbatim>\<open>OverflowError\<close>, which
  leaves the function.
\<close>

theorem parse_verdict_raises_on_infinity:
  "parse_verdict ''CONFIDENCE: inf''
   = Inl (OverflowError, ''cannot convert float infinity to integer'')"
  by code_simp

text \<open>Whenever the function does return, the triple is in the domain.\<close>

lemma parse_verdict_result_in_domain:
  assumes "parse_verdict response = Inr (v, rs, c)"
  shows "v \<in> set [''pass'', ''fail'', ''inconclusive''] \<and> 0 \<le> c \<and> c \<le> 100"
proof -
  from assms obtain r
    where "parse_lines (response_lines response) (''inconclusive'', [], 50) = Inr (v, r, c)"
    by (rule parse_verdict_loop)
  note res = loop_result [OF this]
  have "v \<in> set [''pass'', ''fail'', ''inconclusive'']"
  proof (cases "filter valid_verdict_line (response_lines response) = []")
    case True
    with res show ?thesis by (simp add: last_or_def)
  next
    case False
    then have "last (filter valid_verdict_line (response_lines response))
               \<in> set (filter valid_verdict_line (response_lines response))"
      by (rule last_in_set)
    then have "valid_verdict_line (last (filter valid_verdict_line (response_lines response)))"
      by simp
    with res False show ?thesis
      by (simp add: last_or_def last_map valid_verdict_line_def)
  qed
  moreover have "0 \<le> c \<and> c \<le> 100"
    using res line_confidence_range
    by (simp add: last_or_def last_map)
  ultimately show ?thesis by simp
qed

subsection \<open>Which line counts\<close>




subsection \<open>The confidence\<close>
















subsection \<open>The reasoning\<close>




section \<open>Properties of the evaluation run\<close>

subsection \<open>One judge\<close>

text \<open>
  Every exception of the invocation, the parsing or the insert is caught in the judge
  loop: the attempt is counted as failed, a message that contains the name of the judge
  is appended, the store is left as it was, and the loop goes on with the next judge.
\<close>

lemma error_message_names_judge: "sublist judge_name (error_message e judge_name)"
proof -
  obtain before where
    "error_message e judge_name = before @ judge_name @ (apostrophe @ '': '' @ snd e)"
    by (cases "fst e = HTTPError") (simp_all add: error_message_def)
  then show ?thesis
    by (simp only: sublist_appendI)
qed

lemma failed_attempt_is_counted:
  assumes "attempt env (length (invoked st)) (store st) sub_id q_row a j = Inl e"
  shows "planned (run_judge env sub_id q_row a st j) = planned st + 1
       \<and> completed (run_judge env sub_id q_row a st j) = completed st
       \<and> failed (run_judge env sub_id q_row a st j) = failed st + 1
       \<and> errors (run_judge env sub_id q_row a st j) = errors st @ [error_message e (j_name j)]
       \<and> store (run_judge env sub_id q_row a st j) = store st"
  by (simp add: run_judge_def Let_def assms)

lemma completed_attempt_is_counted:
  assumes "attempt env (length (invoked st)) (store st) sub_id q_row a j = Inr db'"
  shows "planned (run_judge env sub_id q_row a st j) = planned st + 1
       \<and> completed (run_judge env sub_id q_row a st j) = completed st + 1
       \<and> failed (run_judge env sub_id q_row a st j) = failed st
       \<and> errors (run_judge env sub_id q_row a st j) = errors st
       \<and> store (run_judge env sub_id q_row a st j) = db'"
  by (simp add: run_judge_def Let_def assms)

lemma judges_after_a_failure:
  "foldl (run_judge env sub_id q_row a) st (js @ j # js')
   = foldl (run_judge env sub_id q_row a)
       (run_judge env sub_id q_row a (foldl (run_judge env sub_id q_row a) st js) j) js'"
  by simp

subsection \<open>The counters\<close>

lemma run_judge_consistent:
  "counters_consistent st \<Longrightarrow> counters_consistent (run_judge env sub_id q_row a st j)"
  by (simp add: counters_consistent_def run_judge_def Let_def split: sum.splits)

lemma judges_loop_consistent:
  "counters_consistent st \<Longrightarrow> counters_consistent (foldl (run_judge env sub_id q_row a) st js)"
  by (induction js arbitrary: st) (simp_all add: run_judge_consistent)

lemma run_question_consistent:
  "run_question env queue_id sub_id st q_row = Inr st' \<Longrightarrow> counters_consistent st
   \<Longrightarrow> counters_consistent st'"
  by (auto simp: run_question_def judges_loop_consistent split: sum.splits option.splits)

lemma run_questions_consistent:
  "run_questions env queue_id sub_id qs st = Inr st' \<Longrightarrow> counters_consistent st
   \<Longrightarrow> counters_consistent st'"
proof (induction qs arbitrary: st)
  case Nil
  then show ?case by simp
next
  case (Cons q qs)
  then show ?case
    by (auto split: sum.splits dest: run_question_consistent)
qed

lemma run_submission_consistent:
  "run_submission env queue_id st sub_id = Inr st' \<Longrightarrow> counters_consistent st
   \<Longrightarrow> counters_consistent st'"
  by (auto simp: run_submission_def split: sum.splits dest: run_questions_consistent)

lemma run_submissions_consistent:
  "run_submissions env queue_id ids st = Inr st' \<Longrightarrow> counters_consistent st
   \<Longrightarrow> counters_consistent st'"
proof (induction ids arbitrary: st)
  case Nil
  then show ?case by simp
next
  case (Cons i ids)
  then show ?case
    by (auto split: sum.splits dest: run_submission_consistent)
qed

subsection \<open>What a run changes in the store\<close>

lemma insert_evaluation_same_inputs:
  "insert_evaluation db row = Inr db' \<Longrightarrow> same_inputs db db'"
  by (auto simp: insert_evaluation_def exn_bind_def same_inputs_def split: sum.splits)

lemma attempt_same_inputs:
  "attempt env k db sub_id q_row a j = Inr db' \<Longrightarrow> same_inputs db db'"
  by (auto simp: attempt_def exn_bind_def split: sum.splits prod.splits dest: insert_evaluation_same_inputs)

lemma same_inputs_refl: "same_inputs db db"
  by (simp add: same_inputs_def)

lemma same_inputs_trans: "same_inputs a b \<Longrightarrow> same_inputs b c \<Longrightarrow> same_inputs a c"
  by (simp add: same_inputs_def)

lemma run_judge_same_inputs: "same_inputs (store st) (store (run_judge env sub_id q_row a st j))"
  by (auto simp: run_judge_def Let_def same_inputs_refl split: sum.splits dest: attempt_same_inputs)

lemma judges_loop_same_inputs:
  "same_inputs (store st) (store (foldl (run_judge env sub_id q_row a) st js))"
proof (induction js arbitrary: st)
  case Nil
  show ?case by (simp add: same_inputs_refl)
next
  case (Cons j js)
  show ?case
    using same_inputs_trans [OF run_judge_same_inputs Cons.IH] by simp
qed

lemma run_question_same_inputs:
  "run_question env queue_id sub_id st q_row = Inr st' \<Longrightarrow> same_inputs (store st) (store st')"
  by (auto simp: run_question_def same_inputs_refl judges_loop_same_inputs split: sum.splits option.splits)

lemma select_judges_same_inputs:
  "same_inputs db db' \<Longrightarrow> select_judges db' queue_id t = select_judges db queue_id t"
  by (simp add: same_inputs_def select_judges_def check_select_def)

lemma select_answer_same_inputs:
  "same_inputs db db' \<Longrightarrow> select_answer db' sub_id t = select_answer db sub_id t"
  by (simp add: same_inputs_def select_answer_def check_select_def)

lemma select_answer_no_row:
  "select_answer db sub_id t = Inr a
   \<Longrightarrow> \<forall>r \<in> set (answers db). \<not> (a_submission_id r = sub_id \<and> a_template_id r = t)
   \<Longrightarrow> a = None"
  by (auto simp: select_answer_def exn_bind_def filter_empty_conv split: sum.splits list.splits)

subsection \<open>When a run returns\<close>

text \<open>
  The queries are the only statements of a run outside the \<^verbatim>\<open>try\<close>: the run returns
  its response on every store whose tables have the columns the queries name.
\<close>

lemma run_readable_same_inputs: "same_inputs db db' \<Longrightarrow> run_readable db' = run_readable db"
  by (simp add: same_inputs_def run_readable_def check_select_def)

lemma run_question_returns:
  "run_readable (store st) \<Longrightarrow> \<exists>st'. run_question env queue_id sub_id st q_row = Inr st'"
  by (simp add: run_readable_def run_question_def select_judges_def select_answer_def exn_bind_def
      split: list.splits)

lemma run_questions_returns:
  "run_readable (store st) \<Longrightarrow>
   \<exists>st'. run_questions env queue_id sub_id qs st = Inr st' \<and> same_inputs (store st) (store st')"
proof (induction qs arbitrary: st)
  case Nil
  then show ?case by (simp add: same_inputs_refl)
next
  case (Cons q qs)
  from run_question_returns [OF Cons.prems] obtain s
    where step: "run_question env queue_id sub_id st q = Inr s"
    by blast
  note frame = run_question_same_inputs [OF step]
  with Cons.prems have "run_readable (store s)"
    by (simp add: run_readable_same_inputs)
  from Cons.IH [OF this] obtain st'
    where "run_questions env queue_id sub_id qs s = Inr st'" "same_inputs (store s) (store st')"
    by blast
  with step frame show ?case
    by (auto intro: same_inputs_trans)
qed

lemma run_submission_returns:
  "run_readable (store st) \<Longrightarrow>
   \<exists>st'. run_submission env queue_id st sub_id = Inr st' \<and> same_inputs (store st) (store st')"
proof -
  assume r: "run_readable (store st)"
  then obtain qs where "select_questions (store st) sub_id = Inr qs"
    by (simp add: run_readable_def select_questions_def exn_bind_def)
  with run_questions_returns [OF r] show ?thesis
    by (simp add: run_submission_def)
qed

lemma run_submissions_returns:
  "run_readable (store st) \<Longrightarrow> \<exists>st'. run_submissions env queue_id ids st = Inr st'"
proof (induction ids arbitrary: st)
  case Nil
  then show ?case by simp
next
  case (Cons i ids)
  from run_submission_returns [OF Cons.prems] obtain s
    where step: "run_submission env queue_id st i = Inr s"
      and frame: "same_inputs (store st) (store s)"
    by blast
  with Cons.prems have "run_readable (store s)"
    by (simp add: run_readable_same_inputs)
  from Cons.IH [OF this] step show ?case
    by auto
qed

lemma run_returns_when_readable:
  "run_readable db \<Longrightarrow> \<exists>out. run_evaluations env db queue_id = Inr out"
proof -
  assume r: "run_readable db"
  then obtain ids where ids: "select_submission_ids db queue_id = Inr ids"
    by (simp add: run_readable_def select_submission_ids_def exn_bind_def)
  from r have "run_readable (store (initial_state db))"
    by (simp add: initial_state_def)
  from run_submissions_returns [OF this, of env queue_id ids] obtain st
    where "run_submissions env queue_id ids (initial_state db) = Inr st"
    by blast
  with ids show ?thesis
    by (simp add: run_evaluations_def)
qed

lemma extended_tables_readable: "run_readable (db\<lparr>tables := extended_tables\<rparr>)"
  by (simp add: run_readable_def check_select_def extended_tables_def with_column_def
      declared_tables_def)

subsection \<open>The run on concrete stores\<close>

lemma end_to_end_on_extended_tables:
  "map_sum fst (\<lambda>p. (fst p, evaluations (store (snd p))))
     (run_evaluations replying (one_question_store extended_tables [judge_numbered 1 ''J1'']) ''Q1'')
   = Inr (\<lparr>r_planned = 1, r_completed = 1, r_failed = 0, r_errors = []\<rparr>,
          [\<lparr>e_submission_id = ''S1'', e_template_id = ''q1'', e_judge_id = 1,
            e_verdict = ''pass'', e_reasoning = ''ok'', e_confidence_score = 90,
            e_created_at = ''2024-01-02T00:00:00''\<rparr>])"
  by code_simp

lemma isolation_on_extended_tables:
  "map_sum fst (\<lambda>p. (r_planned (fst p), r_completed (fst p), r_failed (fst p), r_errors (fst p)))
     (run_evaluations second_fails (one_question_store extended_tables three_judges) ''Q1'')
   = Inr (3, 2, 1, [''HTTP error for judge '' @ apostrophe @ ''J2'' @ apostrophe @ '': connection refused''])"
  by code_simp

text \<open>
  C1.  End to end: queue Q1 holds one submission whose question, without grounding
  content, is answered ``yes''; one active judge is assigned; the backend returns the
  well-formed reply.  The claim is that the run persists one evaluation with verdict
  pass, reasoning ok and confidence 90 (the insert succeeding on the declared
  evaluations table) and returns planned 1, completed 1, failed 0.  On the tables that
  \<open>init_db\<close> declares the run raises at its query for the questions, which names a
  column \<open>content\<close> the questions table does not have; and once the questions table
  has that column, the insert of the evaluation raises, since the evaluations table has
  no column \<open>confidence_score\<close>: the run returns planned 1, completed 0, failed 1 and
  no evaluation is stored.
\<close>

theorem end_to_end_on_declared_tables:
  "map_sum fst fst
     (run_evaluations replying (one_question_store declared_tables [judge_numbered 1 ''J1'']) ''Q1'')
   = Inl (OperationalError, ''no such column: content'')
   \<and> map_sum fst (\<lambda>p. (fst p, evaluations (store (snd p))))
       (run_evaluations replying
          (one_question_store (with_column ''questions'' ''content'' declared_tables)
             [judge_numbered 1 ''J1'']) ''Q1'')
     = Inr (\<lparr>r_planned = 1, r_completed = 0, r_failed = 1,
             r_errors = [''Error running judge '' @ apostrophe @ ''J1'' @ apostrophe
                         @ '': table evaluations has no column named confidence_score'']\<rparr>,
            [])"
  by code_simp


subsection \<open>Questions without an answer\<close>

text \<open>
  C7.  A question of a submission for which the store has no answer row is skipped:
  its step leaves the state of the run as it is (the counters, the error messages, the
  store and the requests made to the backend), and the loop over the questions of the
  submission ends as it does without that question.
\<close>

theorem unanswered_question_is_skipped:
  assumes no_row: "\<forall>r \<in> set (answers (store st)).
                     \<not> (a_submission_id r = sub_id \<and> a_template_id r = qr_template_id q_row)"
    and judges_read: "select_judges (store st) queue_id (qr_template_id q_row) = Inr js"
    and answer_read: "select_answer (store st) sub_id (qr_template_id q_row) = Inr a"
  shows "run_question env queue_id sub_id st q_row = Inr st
         \<and> run_questions env queue_id sub_id (before @ q_row # after) st
           = run_questions env queue_id sub_id (before @ after) st"
proof -
  have skip: "run_question env queue_id sub_id s q_row = Inr s" if "same_inputs (store st) (store s)" for s
  proof -
    have "select_answer (store s) sub_id (qr_template_id q_row) = Inr None"
      using select_answer_no_row [OF answer_read no_row] answer_read
        select_answer_same_inputs [OF that] by simp
    moreover have "select_judges (store s) queue_id (qr_template_id q_row) = Inr js"
      using judges_read select_judges_same_inputs [OF that] by simp
    ultimately show ?thesis by (simp add: run_question_def)
  qed
  have loop: "same_inputs (store st) (store s) \<Longrightarrow>
              run_questions env queue_id sub_id (before @ q_row # after) s
              = run_questions env queue_id sub_id (before @ after) s" for s
  proof (induction before arbitrary: s)
    case Nil
    then show ?case by (simp add: skip)
  next
    case (Cons p ps)
    show ?case
    proof (cases "run_question env queue_id sub_id s p")
      case (Inl e)
      then show ?thesis by simp
    next
      case (Inr s')
      have "same_inputs (store st) (store s')"
        using same_inputs_trans [OF Cons.prems run_question_same_inputs [OF Inr]] .
      with Cons.IH Inr show ?thesis by simp
    qed
  qed
  show ?thesis using skip [OF same_inputs_refl] loop [OF same_inputs_refl] by simp
qed

theorem unanswered_question_is_skipped_witness:
  "filter (\<lambda>r. a_submission_id r = ''S1'' \<and> a_template_id r = qr_template_id second_question)
      (answers (store (initial_state (two_question_store extended_tables three_judges)))) = []
   \<and> select_judges (store (initial_state (two_question_store extended_tables three_judges)))
        ''Q1'' (qr_template_id second_question) = Inr three_judges
   \<and> select_answer (store (initial_state (two_question_store extended_tables three_judges)))
        ''S1'' (qr_template_id second_question) = Inr None
   \<and> run_question second_fails ''Q1'' ''S1''
        (initial_state (two_question_store extended_tables three_judges)) second_question
      = Inr (initial_state (two_question_store extended_tables three_judges))
   \<and> run_questions second_fails ''Q1'' ''S1''
        (questions (one_question_store extended_tables three_judges) @ second_question # [])
        (initial_state (two_question_store extended_tables three_judges))
      = run_questions second_fails ''Q1'' ''S1''
        (questions (one_question_store extended_tables three_judges) @ [])
        (initial_state (two_question_store extended_tables three_judges))"
proof -
  have h1: "\<forall>r \<in> set (answers (store (initial_state (two_question_store extended_tables three_judges)))).
              \<not> (a_submission_id r = ''S1'' \<and> a_template_id r = qr_template_id second_question)"
    by code_simp
  have h2: "select_judges (store (initial_state (two_question_store extended_tables three_judges)))
              ''Q1'' (qr_template_id second_question) = Inr three_judges"
    by code_simp
  have h3: "select_answer (store (initial_state (two_question_store extended_tables three_judges)))
              ''S1'' (qr_template_id second_question) = Inr None"
    by code_simp
  from unanswered_question_is_skipped [OF h1 h2 h3, where env = second_fails
      and before = "questions (one_question_store extended_tables three_judges)" and after = "[]"]
    h1 h2 h3
  show ?thesis by (simp add: filter_empty_conv)
qed

subsection \<open>The response\<close>

text \<open>
  C10.  In the response of every run, on every store and for every queue, planned is
  the sum of completed and failed.
\<close>

theorem planned_is_completed_plus_failed:
  "run_evaluations env db queue_id = Inr out
   \<Longrightarrow> r_planned (fst out) = r_completed (fst out) + r_failed (fst out)"
proof -
  assume run: "run_evaluations env db queue_id = Inr out"
  then obtain ids st where ids: "select_submission_ids db queue_id = Inr ids"
    and loop: "run_submissions env queue_id ids (initial_state db) = Inr st"
    and out: "out = (response_of st, st)"
    by (auto simp: run_evaluations_def split: sum.splits)
  have "counters_consistent (initial_state db)"
    by (simp add: counters_consistent_def initial_state_def)
  with loop have "counters_consistent st"
    by (rule run_submissions_consistent)
  with out show ?thesis
    by (simp add: counters_consistent_def response_of_def)
qed

theorem planned_is_completed_plus_failed_witness:
  "\<exists>out. run_evaluations second_fails (one_question_store extended_tables three_judges) ''Q1'' = Inr out
     \<and> r_planned (fst out) = 3
     \<and> r_planned (fst out) = r_completed (fst out) + r_failed (fst out)"
proof -
  obtain out where run:
    "run_evaluations second_fails (one_question_store extended_tables three_judges) ''Q1'' = Inr out"
    and three: "r_planned (fst out) = 3"
    using isolation_on_extended_tables
    by (cases "run_evaluations second_fails (one_question_store extended_tables three_judges) ''Q1''") auto
  from planned_is_completed_plus_failed [OF run] run three show ?thesis by blast
qed

section \<open>Properties of the statistics and of the upload\<close>

lemma declared_tables_lack_confidence:
  "tables db = declared_tables \<Longrightarrow>
   check_select db ''evaluations'' [] (''confidence_score'' # cols)
   = Inl (OperationalError, ''no such column: confidence_score'')"
  by (simp add: check_select_def declared_tables_def)

lemma stats_never_return_on_declared_tables:
  "tables db = declared_tables \<Longrightarrow> get_evaluation_stats db judge_ids question_ids verdict \<noteq> Inr s"
  by (auto simp: get_evaluation_stats_def exn_bind_def Let_def declared_tables_lack_confidence
      split: sum.splits option.splits)

lemma stats_on_extended_tables:
  "get_evaluation_stats
     (empty_database\<lparr>tables := extended_tables,
        evaluations := [evaluation ''pass'' 90, evaluation ''pass'' 80, evaluation ''pass'' 85,
                        evaluation ''fail'' 11]\<rparr>) None None None
   = Inr \<lparr>es_total = 4, es_pass_count = 3, es_fail_count = 1, es_inconclusive_count = 0,
          es_pass_rate = Finite 75, es_avg_confidence = Finite (133 / 2)\<rparr>
   \<and> get_evaluation_stats (empty_database\<lparr>tables := extended_tables\<rparr>) None None None
     = Inr \<lparr>es_total = 0, es_pass_count = 0, es_fail_count = 0, es_inconclusive_count = 0,
            es_pass_rate = Finite 0, es_avg_confidence = Finite 50\<rparr>"
  by code_simp

text \<open>
  C8.  The claim gives the pass rate and the average confidence that the statistics
  return for every store and filter.  The second query of \<open>get_evaluation_stats\<close>
  averages a column \<open>confidence_score\<close> that the declared evaluations table does not
  have: on the store that \<open>init_db\<close> creates the operation raises and returns no
  statistics, here without any filter.
\<close>

theorem stats_on_declared_tables:
  "get_evaluation_stats (init_db empty_database) None None None
   = Inl (OperationalError, ''no such column: confidence_score'')"
  by code_simp

text \<open>
  C9.  The claim is that no store ever holds two answer rows for one pair of
  submission and question template, also after a submission is uploaded again.
  Uploading the same submission twice replaces its submission row and inserts its
  answers a second time.
\<close>

theorem reupload_duplicates_answers:
  "exn_bind (upload_submissions (init_db empty_database) [answers_only]) (\<lambda>first.
     exn_bind (upload_submissions (fst first) [answers_only]) (\<lambda>second.
       Inr (answers_unique (fst first),
            map s_id (submissions (fst second)),
            map (\<lambda>r. (a_submission_id r, a_template_id r)) (answers (fst second)),
            answers_unique (fst second))))
   = Inr (True, [''S1''], [(''S1'', ''q1''), (''S1'', ''q1'')], False)"
  by code_simp

end
